theory Spec2Isabelle
  imports Main
begin

section \<open>The collector communication layer (newrelic/core/data\_collector.py)\<close>

text \<open>
  The module talks to the data collector through three libraries: \<open>json\<close>, \<open>zlib\<close> and
  \<open>requests\<close>. Their functions are parameters of the model (record \<open>env\<close>); what the
  module itself does with their results is translated statement by statement. A raised
  exception is the \<open>Inl\<close> side of a sum, a returned value the \<open>Inr\<close> side, and the
  calls made on the network are recorded in a list that every function takes and returns.
\<close>

subsection \<open>Python values\<close>

text \<open>
  Values that travel in payloads and come back from \<open>json.loads\<close>. Numbers are
  integers here: no branch of the module inspects a number.
\<close>

datatype pyval =
    PNone
  | PBool bool
  | PNum int
  | PStr string
  | PList "pyval list"
  | PDict "(string \<times> pyval) list"

text \<open>Truth value of an object, as \<open>if x:\<close> and \<open>not x\<close> test it.\<close>

fun truthy :: "pyval \<Rightarrow> bool" where
  "truthy PNone = False"
| "truthy (PBool b) = b"
| "truthy (PNum n) = (n \<noteq> 0)"
| "truthy (PStr s) = (s \<noteq> [])"
| "truthy (PList xs) = (xs \<noteq> [])"
| "truthy (PDict kvs) = (kvs \<noteq> [])"

subsection \<open>Exceptions\<close>

text \<open>
  The module's own exception classes (lines 37-42), with their constructor arguments,
  and the built-in exceptions its statements can raise. \<open>LibraryError\<close> stands for any
  other \<open>Exception\<close> that a library call raises.
\<close>

datatype exn =
    ForceAgentRestart "pyval list"
  | ForceAgentDisconnect "pyval list"
  | DiscardDataForRequest "pyval list"
  | RetryDataForRequest "pyval list"
  | ServerIsUnavailable "pyval list"
  | KeyError string
  | TypeError
  | AttributeError string
  | LibraryError string

text \<open>\<open>isinstance(exc, NetworkInterfaceException)\<close>: the five classes of lines 38-42.\<close>

fun is_NetworkInterfaceException :: "exn \<Rightarrow> bool" where
  "is_NetworkInterfaceException (ForceAgentRestart a) = True"
| "is_NetworkInterfaceException (ForceAgentDisconnect a) = True"
| "is_NetworkInterfaceException (DiscardDataForRequest a) = True"
| "is_NetworkInterfaceException (RetryDataForRequest a) = True"
| "is_NetworkInterfaceException (ServerIsUnavailable a) = True"
| "is_NetworkInterfaceException (KeyError k) = False"
| "is_NetworkInterfaceException TypeError = False"
| "is_NetworkInterfaceException (AttributeError n) = False"
| "is_NetworkInterfaceException (LibraryError m) = False"

text \<open>Running a statement that may raise, then the rest of the block.\<close>

fun andthen :: "exn + unit \<Rightarrow> exn + 'a \<Rightarrow> exn + 'a" where
  "andthen (Inl e) k = Inl e"
| "andthen (Inr u) k = k"

subsection \<open>Attribute lookup on the logger and on zlib\<close>

text \<open>
  \<open>_logger\<close> is \<open>logging.getLogger(__name__)\<close> (line 24), an instance of the standard
  \<open>logging.Logger\<close>; \<open>zlib\<close> is the standard module (line 9). Calling a name that the
  object does not have raises \<open>AttributeError\<close>. The lists hold the logging methods of
  \<open>Logger\<close> and the functions of \<open>zlib\<close>.
\<close>

definition Logger_methods :: "string list" where
  "Logger_methods =
     [''debug'', ''info'', ''warning'', ''warn'', ''error'', ''exception'',
      ''critical'', ''fatal'', ''log'']"

definition zlib_functions :: "string list" where
  "zlib_functions =
     [''adler32'', ''compress'', ''compressobj'', ''crc32'', ''decompress'',
      ''decompressobj'']"

definition getattr :: "string list \<Rightarrow> string \<Rightarrow> exn + unit" where
  "getattr names n = (if n \<in> set names then Inr () else Inl (AttributeError n))"

text \<open>A call \<open>_logger.n(...)\<close>: the message itself is not recorded.\<close>

definition logger_call :: "string \<Rightarrow> exn + unit" where
  "logger_call n = getattr Logger_methods n"

subsection \<open>Settings, requests and the environment\<close>

text \<open>
  The fields of \<open>global_settings()\<close> that the module reads. \<open>port\<close> and \<open>proxy_port\<close>
  are \<open>0\<close> when not set (\<open>if settings.port:\<close> is false for both \<open>None\<close> and \<open>0\<close>).
\<close>

record settings =
  ssl :: bool
  host :: string
  port :: nat
  proxy_host :: "string option"
  proxy_port :: nat
  proxy_user :: "string option"
  proxy_pass :: "string option"
  license_key :: "string option"
  debug_log_malformed_json_data :: bool

text \<open>The arguments of one \<open>requests.post\<close> call (lines 221-222) and its response.\<close>

record request =
  req_url :: string
  req_params :: "(string \<times> string) list"
  req_headers :: "(string \<times> string) list"
  req_keep_alive :: bool
  req_proxies :: "(string \<times> string) option"
  req_verify :: bool
  req_data :: string

record response =
  status_code :: nat
  content :: string

text \<open>
  The settings object made by \<open>create_settings_snapshot\<close> (newrelic.core.config, not
  part of this module): the module reads its attribute \<open>agent_run_id\<close> only.
\<close>

record configuration =
  cfg_agent_run_id :: pyval
  cfg_values :: "(string \<times> pyval) list"

text \<open>
  The library functions and process values the module uses.
  \<^item> \<open>json_dumps\<close>, \<open>json_loads\<close>: \<open>Inl m\<close> is an \<open>Exception\<close> whose \<open>str()\<close> is \<open>m\<close>.
  \<^item> \<open>requests_post\<close>: given the calls made so far and the new call, \<open>Inl m\<close> is a
    \<open>RequestException\<close> raised before any response, \<open>Inr r\<close> the response.
  \<^item> \<open>py_str\<close> is \<open>str()\<close>, also used for the \<open>%s\<close> and \<open>%d\<close> of the URL.
\<close>

record env =
  global_settings :: settings
  USER_AGENT :: string
  version :: string
  os_getpid :: int
  socket_gethostname :: "exn + string"
  py_str :: "pyval \<Rightarrow> string"
  json_dumps :: "pyval list \<Rightarrow> string + string"
  json_loads :: "string \<Rightarrow> string + pyval"
  zlib_compress :: "string \<Rightarrow> nat \<Rightarrow> string"
  requests_post :: "request list \<Rightarrow> request \<Rightarrow> string + response"
  create_settings_snapshot :: "pyval \<Rightarrow> exn + configuration"

subsection \<open>collector\_url and proxy\_server (lines 46-101)\<close>

definition scheme_of :: "settings \<Rightarrow> string" where
  "scheme_of s = (if ssl s then ''https'' else ''http'')"

definition collector_url :: "env \<Rightarrow> pyval \<Rightarrow> string" where
  "collector_url e server =
     (let s = global_settings e;
          server' =
            (if truthy server then py_str e server
             else if port s = 0 then host s
             else host s @ '':'' @ py_str e (PNum (int (port s))))
      in scheme_of s @ ''://'' @ server' @ ''/agent_listener/invoke_raw_method'')"

definition proxy_server :: "env \<Rightarrow> (string \<times> string) option" where
  "proxy_server e =
     (let s = global_settings e in
      case proxy_host s of
        None \<Rightarrow> None
      | Some h \<Rightarrow>
          if h = [] then None
          else if proxy_port s = 0 then None
          else
            (let proxy = h @ '':'' @ py_str e (PNum (int (proxy_port s)));
                 proxy' =
                   (case (proxy_user s, proxy_pass s) of
                      (Some u, Some p) \<Rightarrow> u @ '':'' @ p @ ''@'' @ proxy
                    | _ \<Rightarrow> proxy)
             in Some (scheme_of s, proxy')))"

subsection \<open>send\_request (lines 108-380)\<close>

text \<open>Lines 120-121: a missing or empty license key is replaced.\<close>

definition effective_license_key :: "string option \<Rightarrow> string" where
  "effective_license_key k =
     (case k of
        None \<Rightarrow> ''NO LICENSE KEY WAS SET IN AGENT CONFIGURATION''
      | Some s \<Rightarrow> if s = [] then ''NO LICENSE KEY WAS SET IN AGENT CONFIGURATION'' else s)"

text \<open>Lines 125-131: the URL parameters.\<close>

definition request_params :: "env \<Rightarrow> string \<Rightarrow> string option \<Rightarrow> pyval \<Rightarrow> (string \<times> string) list" where
  "request_params e method lk agent_run_id =
     [(''method'', method),
      (''license_key'', effective_license_key lk),
      (''protocol_version'', ''9''),
      (''marshal_format'', ''json'')]
     @ (if truthy agent_run_id then [(''run_id'', py_str e agent_run_id)] else [])"

text \<open>
  Lines 181-184: compression of the serialized payload. The result is the value of the
  \<open>Content-Encoding\<close> header and the body.
\<close>

definition compress_body :: "env \<Rightarrow> string \<Rightarrow> string \<times> string" where
  "compress_body e d =
     (if length d > 64 * 1024
      then (''deflate'', zlib_compress e d (if length d < 2000000 then 1 else 9))
      else (''identity'', d))"

text \<open>Lines 164-184: serialization, then compression.\<close>

definition encode_payload :: "env \<Rightarrow> pyval list \<Rightarrow> exn + (string \<times> string)" where
  "encode_payload e payload =
     (case json_dumps e payload of
        Inl exc \<Rightarrow>
          andthen (logger_call ''error'') (Inl (DiscardDataForRequest [PStr exc]))
      | Inr d \<Rightarrow> Inr (compress_body e d))"

text \<open>Lines 133-146 and 221-222: the call that is made.\<close>

definition build_request ::
  "env \<Rightarrow> string \<Rightarrow> string \<Rightarrow> string option \<Rightarrow> pyval \<Rightarrow> string \<Rightarrow> string \<Rightarrow> request" where
  "build_request e u method lk agent_run_id encoding body =
     \<lparr> req_url = u,
       req_params = request_params e method lk agent_run_id,
       req_headers =
         [(''User-Agent'', USER_AGENT e),
          (''Content-Encoding'', encoding),
          (''Connection'', ''Keep-Alive'')],
       req_keep_alive = True,
       req_proxies = proxy_server e,
       req_verify = False,
       req_data = body \<rparr>"

text \<open>The request made for a payload whose serialization is \<open>d\<close>.\<close>

definition post_arguments ::
  "env \<Rightarrow> string \<Rightarrow> string \<Rightarrow> string option \<Rightarrow> pyval \<Rightarrow> string \<Rightarrow> request" where
  "post_arguments e u method lk agent_run_id d =
     build_request e u method lk agent_run_id
       (fst (compress_body e d)) (snd (compress_body e d))"

text \<open>\<open>key in obj\<close> and \<open>obj[key]\<close> for a string key, on any decoded value.\<close>

fun is_prefix :: "string \<Rightarrow> string \<Rightarrow> bool" where
  "is_prefix [] s = True"
| "is_prefix (c # cs) [] = False"
| "is_prefix (c # cs) (d # ds) = (c = d \<and> is_prefix cs ds)"

fun is_substring :: "string \<Rightarrow> string \<Rightarrow> bool" where
  "is_substring p [] = (p = [])"
| "is_substring p (c # cs) = (is_prefix p (c # cs) \<or> is_substring p cs)"

fun py_contains :: "pyval \<Rightarrow> string \<Rightarrow> exn + bool" where
  "py_contains (PDict kvs) k = Inr (k \<in> fst ` set kvs)"
| "py_contains (PList xs) k = Inr (PStr k \<in> set xs)"
| "py_contains (PStr s) k = Inr (is_substring k s)"
| "py_contains PNone k = Inl TypeError"
| "py_contains (PBool b) k = Inl TypeError"
| "py_contains (PNum n) k = Inl TypeError"

fun py_getitem :: "pyval \<Rightarrow> string \<Rightarrow> exn + pyval" where
  "py_getitem (PDict kvs) k =
     (case map_of kvs k of None \<Rightarrow> Inl (KeyError k) | Some v \<Rightarrow> Inr v)"
| "py_getitem (PList xs) k = Inl TypeError"
| "py_getitem (PStr s) k = Inl TypeError"
| "py_getitem PNone k = Inl TypeError"
| "py_getitem (PBool b) k = Inl TypeError"
| "py_getitem (PNum n) k = Inl TypeError"

text \<open>Lines 330-380: the server-side exception, once its type and message are read.\<close>

definition server_exception :: "pyval \<Rightarrow> pyval \<Rightarrow> exn + pyval" where
  "server_exception error_type message =
     andthen (logger_call ''debug'')
      (if error_type = PStr ''NewRelic::Agent::LicenseException''
       then andthen (logger_call ''error'') (Inl (DiscardDataForRequest [message]))
       else if error_type = PStr ''NewRelic::Agent::PostTooBigException''
       then andthen (logger_call ''warning'') (Inl (DiscardDataForRequest [message]))
       else if error_type = PStr ''NewRelic::Agent::ForceRestartException''
       then andthen (logger_call ''info'') (Inl (ForceAgentRestart [message]))
       else if error_type = PStr ''NewRelic::Agent::ForceDisconnectException''
       then andthen (logger_call ''alert'') (Inl (ForceAgentDisconnect [message]))
       else andthen (logger_call ''warning'') (Inl (DiscardDataForRequest [message])))"

text \<open>Lines 315-319: the decoded body of a 200 response.\<close>

definition decoded_result :: "pyval \<Rightarrow> exn + pyval" where
  "decoded_result result =
     (case py_contains result ''return_value'' of
        Inl x \<Rightarrow> Inl x
      | Inr True \<Rightarrow> py_getitem result ''return_value''
      | Inr False \<Rightarrow>
          (case py_getitem result ''exception'' of
             Inl x \<Rightarrow> Inl x
           | Inr ex \<Rightarrow>
               (case py_getitem ex ''error_type'' of
                  Inl x \<Rightarrow> Inl x
                | Inr error_type \<Rightarrow>
                    (case py_getitem result ''exception'' of
                       Inl x \<Rightarrow> Inl x
                     | Inr ex' \<Rightarrow>
                         (case py_getitem ex' ''message'' of
                            Inl x \<Rightarrow> Inl x
                          | Inr message \<Rightarrow> server_exception error_type message)))))"

text \<open>
  Lines 230-309: the status code, then the decoding of the body. \<open>encoding\<close> is
  \<open>headers['Content-Encoding']\<close>.
\<close>

definition handle_response :: "env \<Rightarrow> string \<Rightarrow> response \<Rightarrow> exn + pyval" where
  "handle_response e encoding r =
     andthen (if status_code r \<noteq> 200 then logger_call ''debug'' else Inr ())
      (if status_code r = 400
       then andthen (logger_call ''error'') (Inl (DiscardDataForRequest []))
       else if status_code r = 413
       then andthen (logger_call ''warning'') (Inl (DiscardDataForRequest []))
       else if status_code r = 415
       then andthen (logger_call ''warning'')
             (andthen
               (if debug_log_malformed_json_data (global_settings e)
                then andthen
                      (if encoding = ''deflate''
                       then getattr zlib_functions ''uncompress'' else Inr ())
                      (logger_call ''debug'')
                else Inr ())
               (Inl (DiscardDataForRequest [PStr (content r)])))
       else if status_code r = 503
       then andthen (logger_call ''warning'') (Inl (ServerIsUnavailable []))
       else if status_code r \<noteq> 200
       then andthen (logger_call ''warning'') (Inl (DiscardDataForRequest []))
       else
         (case json_loads e (content r) of
            Inl exc \<Rightarrow>
              andthen (logger_call ''error'')
               (andthen
                 (if debug_log_malformed_json_data (global_settings e)
                  then logger_call ''debug'' else Inr ())
                 (Inl (DiscardDataForRequest [PStr exc])))
          | Inr result \<Rightarrow> decoded_result result))"

text \<open>
  The whole function. Its last argument is the list of calls made with
  \<open>requests.post\<close> so far; the second component of the result is that list after
  the call, the attempted request included when \<open>requests.post\<close> raises.
\<close>

definition send_request ::
  "env \<Rightarrow> string \<Rightarrow> string \<Rightarrow> string option \<Rightarrow> pyval \<Rightarrow> pyval list \<Rightarrow> request list
     \<Rightarrow> (exn + pyval) \<times> request list" where
  "send_request e u method lk agent_run_id payload posted =
     (case encode_payload e payload of
        Inl x \<Rightarrow> (Inl x, posted)
      | Inr (encoding, body) \<Rightarrow>
          (let req = build_request e u method lk agent_run_id encoding body in
           case requests_post e posted req of
             Inl exc \<Rightarrow>
               (andthen (logger_call ''warning'') (Inl (RetryDataForRequest [PStr exc])),
                posted @ [req])
           | Inr r \<Rightarrow> (handle_response e encoding r, posted @ [req])))"

subsection \<open>ApplicationSession (lines 382-479)\<close>

record ApplicationSession =
  s_collector_url :: string
  s_license_key :: "string option"
  s_configuration :: configuration
  s_agent_run_id :: pyval

text \<open>\<open>__init__\<close> (lines 389-393).\<close>

definition new_ApplicationSession ::
  "string \<Rightarrow> string option \<Rightarrow> configuration \<Rightarrow> ApplicationSession" where
  "new_ApplicationSession u lk cfg =
     \<lparr> s_collector_url = u,
       s_license_key = lk,
       s_configuration = cfg,
       s_agent_run_id = cfg_agent_run_id cfg \<rparr>"

text \<open>Lines 395-407. The payload is the default \<open>()\<close>.\<close>

definition shutdown_session ::
  "env \<Rightarrow> ApplicationSession \<Rightarrow> request list \<Rightarrow> (exn + pyval) \<times> request list" where
  "shutdown_session e s posted =
     (case logger_call ''debug'' of
        Inl x \<Rightarrow> (Inl x, posted)
      | Inr u \<Rightarrow>
          send_request e (s_collector_url s) ''shutdown'' (s_license_key s)
            (s_agent_run_id s) [] posted)"

text \<open>Lines 409-420.\<close>

definition send_metric_data ::
  "env \<Rightarrow> ApplicationSession \<Rightarrow> pyval \<Rightarrow> pyval \<Rightarrow> pyval \<Rightarrow> request list
     \<Rightarrow> (exn + pyval) \<times> request list" where
  "send_metric_data e s start_time end_time metric_data posted =
     (let payload = [s_agent_run_id s, start_time, end_time, metric_data] in
      send_request e (s_collector_url s) ''metric_data'' (s_license_key s)
        (s_agent_run_id s) payload posted)"

text \<open>
  Lines 422-479. The argument is the list that \<open>list(...)\<close> makes of the iterable; a
  bare \<open>return\<close> returns \<open>None\<close>.
\<close>

definition send_errors ::
  "env \<Rightarrow> ApplicationSession \<Rightarrow> pyval list \<Rightarrow> request list
     \<Rightarrow> (exn + pyval) \<times> request list" where
  "send_errors e s errors posted =
     (if errors = [] then (Inr PNone, posted)
      else
        (let payload = [s_agent_run_id s, PList errors] in
         send_request e (s_collector_url s) ''error_data'' (s_license_key s)
           (s_agent_run_id s) payload posted))"

definition send_transaction_traces ::
  "env \<Rightarrow> ApplicationSession \<Rightarrow> pyval list \<Rightarrow> request list
     \<Rightarrow> (exn + pyval) \<times> request list" where
  "send_transaction_traces e s transaction_traces posted =
     (if transaction_traces = [] then (Inr PNone, posted)
      else
        (let payload = [s_agent_run_id s, PList transaction_traces] in
         send_request e (s_collector_url s) ''transaction_sample_data'' (s_license_key s)
           (s_agent_run_id s) payload posted))"

definition send_sql_traces ::
  "env \<Rightarrow> ApplicationSession \<Rightarrow> pyval list \<Rightarrow> request list
     \<Rightarrow> (exn + pyval) \<times> request list" where
  "send_sql_traces e s sql_traces posted =
     (if sql_traces = [] then (Inr PNone, posted)
      else
        (let payload = [PList sql_traces] in
         send_request e (s_collector_url s) ''sql_trace_data'' (s_license_key s)
           (s_agent_run_id s) payload posted))"

subsection \<open>create\_session (lines 481-573)\<close>

text \<open>\<open>not license_key\<close> for a key that is \<open>None\<close> or a string.\<close>

fun no_key :: "string option \<Rightarrow> bool" where
  "no_key None = True"
| "no_key (Some s) = (s = [])"

text \<open>\<open>','.join(names)\<close>.\<close>

fun join_comma :: "string list \<Rightarrow> string" where
  "join_comma [] = []"
| "join_comma [x] = x"
| "join_comma (x # y # ys) = x @ '','' @ join_comma (y # ys)"

text \<open>Lines 519-530: the record sent with \<open>connect\<close>.\<close>

definition local_config ::
  "env \<Rightarrow> string \<Rightarrow> string \<Rightarrow> string list \<Rightarrow> pyval \<Rightarrow> pyval \<Rightarrow> pyval" where
  "local_config e hostname app_name linked_applications environment settings =
     (let app_names = app_name # linked_applications in
      PDict
        [(''pid'', PNum (os_getpid e)),
         (''language'', PStr ''python''),
         (''host'', PStr hostname),
         (''app_name'', PList (map PStr app_names)),
         (''identifier'', PStr (join_comma app_names)),
         (''agent_version'', PStr (version e)),
         (''environment'', environment),
         (''settings'', settings)])"

text \<open>
  Lines 507-542, the body of the \<open>try\<close>: the two calls and the snapshot. It returns the
  variables that the \<open>else\<close> block reads: \<open>url\<close>, \<open>redirect_host\<close> and
  \<open>application_config\<close>.
\<close>

definition registration ::
  "env \<Rightarrow> string option \<Rightarrow> string \<Rightarrow> string list \<Rightarrow> pyval \<Rightarrow> pyval \<Rightarrow> request list
     \<Rightarrow> (exn + (string \<times> pyval \<times> configuration)) \<times> request list" where
  "registration e lk app_name linked_applications environment settings posted =
     (case logger_call ''debug'' of
        Inl x \<Rightarrow> (Inl x, posted)
      | Inr u \<Rightarrow>
          (case send_request e (collector_url e PNone) ''get_redirect_host'' lk PNone []
                  posted of
             (Inl x, posted1) \<Rightarrow> (Inl x, posted1)
           | (Inr redirect_host, posted1) \<Rightarrow>
               (case socket_gethostname e of
                  Inl x \<Rightarrow> (Inl x, posted1)
                | Inr hostname \<Rightarrow>
                    (let payload =
                           [local_config e hostname app_name linked_applications
                              environment settings];
                         url2 = collector_url e redirect_host
                     in case send_request e url2 ''connect'' lk PNone payload posted1 of
                          (Inl x, posted2) \<Rightarrow> (Inl x, posted2)
                        | (Inr server_config, posted2) \<Rightarrow>
                            (case create_settings_snapshot e server_config of
                               Inl x \<Rightarrow> (Inl x, posted2)
                             | Inr application_config \<Rightarrow>
                                 (Inr (url2, redirect_host, application_config),
                                  posted2))))))"

text \<open>
  The whole function: the fallback for the key (lines 495-501), the \<open>try\<close> with its two
  handlers (lines 544-561) and the \<open>else\<close> block (lines 563-573). Falling off the end
  returns \<open>None\<close>.
\<close>

definition create_session ::
  "env \<Rightarrow> string option \<Rightarrow> string \<Rightarrow> string list \<Rightarrow> pyval \<Rightarrow> pyval \<Rightarrow> request list
     \<Rightarrow> (exn + ApplicationSession option) \<times> request list" where
  "create_session e license_key0 app_name linked_applications environment settings posted =
     (let lk = (if no_key license_key0 then license_key (global_settings e)
                else license_key0)
      in case (if no_key lk then logger_call ''error'' else Inr ()) of
           Inl x \<Rightarrow> (Inl x, posted)
         | Inr u \<Rightarrow>
             (case registration e lk app_name linked_applications environment settings
                     posted of
                (Inl x, posted') \<Rightarrow>
                  if is_NetworkInterfaceException x then (Inr None, posted')
                  else
                    (case logger_call ''exception'' of
                       Inl y \<Rightarrow> (Inl y, posted')
                     | Inr u \<Rightarrow> (Inr None, posted'))
              | (Inr (url2, redirect_host, application_config), posted') \<Rightarrow>
                  (let session = new_ApplicationSession url2 lk application_config in
                   case logger_call ''debug'' of
                     Inl y \<Rightarrow> (Inl y, posted')
                   | Inr u \<Rightarrow> (Inr (Some session), posted'))))"

subsection \<open>Outcomes\<close>

text \<open>
  The specification's outcomes, read off what a call returns or raises: a returned
  value is a success, the module's exception classes are the four control outcomes
  (\<open>ServerIsUnavailable\<close> is a subclass of \<open>RetryDataForRequest\<close>), and any other
  exception is outside the taxonomy.
\<close>

datatype outcome = Success pyval | Retry | Discard | Restart | Disconnect

fun outcome_of :: "exn + pyval \<Rightarrow> outcome option" where
  "outcome_of (Inr v) = Some (Success v)"
| "outcome_of (Inl (ForceAgentRestart a)) = Some Restart"
| "outcome_of (Inl (ForceAgentDisconnect a)) = Some Disconnect"
| "outcome_of (Inl (DiscardDataForRequest a)) = Some Discard"
| "outcome_of (Inl (RetryDataForRequest a)) = Some Retry"
| "outcome_of (Inl (ServerIsUnavailable a)) = Some Retry"
| "outcome_of (Inl (KeyError k)) = None"
| "outcome_of (Inl TypeError) = None"
| "outcome_of (Inl (AttributeError n)) = None"
| "outcome_of (Inl (LibraryError m)) = None"

subsection \<open>A concrete environment\<close>

text \<open>
  An environment for evaluating the functions on concrete inputs: the arguments are the
  debug flag, the serialized form that \<open>json.dumps\<close> returns, the value that
  \<open>json.loads\<close> returns and the response of the collector.
\<close>

definition example_settings :: "bool \<Rightarrow> settings" where
  "example_settings dbg =
     \<lparr> ssl = True, host = ''collector.newrelic.com'', port = 0,
       proxy_host = None, proxy_port = 0, proxy_user = None, proxy_pass = None,
       license_key = None, debug_log_malformed_json_data = dbg \<rparr>"

definition example_env :: "bool \<Rightarrow> string + string \<Rightarrow> string + pyval \<Rightarrow> string + response \<Rightarrow> env" where
  "example_env dbg dumped loaded resp =
     \<lparr> global_settings = example_settings dbg,
       USER_AGENT = ''NewRelic-PythonAgent'',
       version = ''1.0'',
       os_getpid = 1,
       socket_gethostname = Inr ''localhost'',
       py_str = (\<lambda>v. case v of PStr s \<Rightarrow> s | _ \<Rightarrow> ''?''),
       json_dumps = (\<lambda>p. dumped),
       json_loads = (\<lambda>s. loaded),
       zlib_compress = (\<lambda>d l. ''z''),
       requests_post = (\<lambda>posted req. resp),
       create_settings_snapshot =
         (\<lambda>v. case v of
                PDict kvs \<Rightarrow>
                  (case map_of kvs ''agent_run_id'' of
                     None \<Rightarrow> Inr \<lparr> cfg_agent_run_id = PNone, cfg_values = kvs \<rparr>
                   | Some r \<Rightarrow> Inr \<lparr> cfg_agent_run_id = r, cfg_values = kvs \<rparr>)
              | _ \<Rightarrow> Inl TypeError) \<rparr>"

definition example_session :: ApplicationSession where
  "example_session =
     new_ApplicationSession ''https://collector-2.newrelic.com/agent_listener/invoke_raw_method''
       (Some ''0123456789'')
       \<lparr> cfg_agent_run_id = PNum 42, cfg_values = [] \<rparr>"

section \<open>Properties\<close>

subsection \<open>Logger calls\<close>

lemma logger_call_ok [simp]:
  "logger_call ''debug'' = Inr ()"
  "logger_call ''info'' = Inr ()"
  "logger_call ''warning'' = Inr ()"
  "logger_call ''error'' = Inr ()"
  "logger_call ''exception'' = Inr ()"
  by (simp_all add: logger_call_def getattr_def Logger_methods_def)

lemma logger_call_alert [simp]: "logger_call ''alert'' = Inl (AttributeError ''alert'')"
  by (simp add: logger_call_def getattr_def Logger_methods_def)

lemma zlib_uncompress [simp]:
  "getattr zlib_functions ''uncompress'' = Inl (AttributeError ''uncompress'')"
  by (simp add: getattr_def zlib_functions_def)

subsection \<open>Serialization and the call that is made\<close>

lemma encode_payload_fail:
  "json_dumps e payload = Inl m \<Longrightarrow>
   encode_payload e payload = Inl (DiscardDataForRequest [PStr m])"
  by (simp add: encode_payload_def)

lemma send_request_posts_one:
  assumes "json_dumps e payload = Inr d"
  shows "snd (send_request e u method lk rid payload posted) =
           posted @ [post_arguments e u method lk rid d]"
  using assms
  by (simp add: send_request_def encode_payload_def post_arguments_def Let_def
      case_prod_beta split: sum.splits)

lemma send_request_response:
  assumes "json_dumps e payload = Inr d"
    and "requests_post e posted (post_arguments e u method lk rid d) = Inr r"
  shows "fst (send_request e u method lk rid payload posted) =
           handle_response e (fst (compress_body e d)) r"
  using assms
  by (simp add: send_request_def encode_payload_def post_arguments_def Let_def
      case_prod_beta)

lemma send_request_no_response:
  assumes "json_dumps e payload = Inr d"
    and "requests_post e posted (post_arguments e u method lk rid d) = Inl m"
  shows "fst (send_request e u method lk rid payload posted) =
           Inl (RetryDataForRequest [PStr m])"
  using assms
  by (simp add: send_request_def encode_payload_def post_arguments_def Let_def
      case_prod_beta)

text \<open>
  Claim C6. When \<open>json.dumps\<close> raises on the payload, \<open>send_request\<close> raises
  \<open>DiscardDataForRequest\<close> (the outcome Discard) and the list of calls made on the
  network is unchanged: \<open>requests.post\<close> is not reached.
\<close>

theorem C6_encoding_failure_discards:
  assumes "json_dumps e payload = Inl m"
  shows "send_request e u method lk rid payload posted =
           (Inl (DiscardDataForRequest [PStr m]), posted)
         \<and> outcome_of (fst (send_request e u method lk rid payload posted)) = Some Discard"
  using assms by (simp add: send_request_def encode_payload_fail)

theorem C6_witness:
  "json_dumps (example_env False (Inl ''not JSON serializable'') (Inr PNone)
       (Inr \<lparr>status_code = 200, content = []\<rparr>)) [PNum 1, PList [PNone]]
     = Inl ''not JSON serializable''
   \<and> send_request (example_env False (Inl ''not JSON serializable'') (Inr PNone)
       (Inr \<lparr>status_code = 200, content = []\<rparr>)) ''u'' ''error_data'' (Some ''k'')
       (PNum 1) [PNum 1, PList [PNone]] []
     = (Inl (DiscardDataForRequest [PStr ''not JSON serializable'']), [])"
  using C6_encoding_failure_discards
    [of "example_env False (Inl ''not JSON serializable'') (Inr PNone)
           (Inr \<lparr>status_code = 200, content = []\<rparr>)"
        "[PNum 1, PList [PNone]]" "''not JSON serializable''" "''u''" "''error_data''"
        "Some ''k''" "PNum 1" "[]"]
  by (simp add: example_env_def)

text \<open>
  Claim C3, as amended. When serialization succeeds with \<open>d\<close>, one call is made. A
  body of at most 64 KiB (65536 bytes, the bound included) is sent as it is with
  \<open>Content-Encoding: identity\<close>; a longer one is sent compressed with
  \<open>Content-Encoding: deflate\<close>, at level 1 below 2000000 bytes and at level 9 from
  2000000 bytes on.
\<close>

theorem C3_compression_policy:
  assumes "json_dumps e payload = Inr d"
  shows "snd (send_request e u method lk rid payload posted) =
           posted @
           [build_request e u method lk rid
              (if length d \<le> 64 * 1024 then ''identity'' else ''deflate'')
              (if length d \<le> 64 * 1024 then d
               else zlib_compress e d (if length d < 2000000 then 1 else 9))]"
  using send_request_posts_one [OF assms, of u "method" lk rid posted]
  by (simp add: post_arguments_def compress_body_def)

theorem C3_witness:
  "json_dumps (example_env False (Inr (replicate 65537 CHR ''x'')) (Inr PNone) (Inl ''down''))
       [PNum 1] = Inr (replicate 65537 CHR ''x'')
   \<and> snd (send_request (example_env False (Inr (replicate 65537 CHR ''x'')) (Inr PNone)
             (Inl ''down'')) ''u'' ''error_data'' (Some ''k'') PNone [PNum 1] []) =
       [build_request (example_env False (Inr (replicate 65537 CHR ''x'')) (Inr PNone)
             (Inl ''down'')) ''u'' ''error_data'' (Some ''k'') PNone ''deflate'' ''z'']"
  using C3_compression_policy
    [of "example_env False (Inr (replicate 65537 CHR ''x'')) (Inr PNone) (Inl ''down'')"
        "[PNum 1]" "replicate 65537 CHR ''x''" "''u''" "''error_data''" "Some ''k''"
        PNone "[]"]
  by (simp add: example_env_def)

text \<open>
  The claim as stated fails at exactly 64 KiB: a serialized payload of 65536 bytes is
  at (not under) 64 KiB, and it is sent uncompressed with the identity encoding.
\<close>

theorem C3_counterexample:
  "64 * 1024 \<le> length (replicate 65536 CHR ''x'')
   \<and> snd (send_request (example_env False (Inr (replicate 65536 CHR ''x'')) (Inr PNone)
             (Inl ''down'')) ''u'' ''error_data'' (Some ''k'') PNone [PNum 1] []) =
       [build_request (example_env False (Inr (replicate 65536 CHR ''x'')) (Inr PNone)
             (Inl ''down'')) ''u'' ''error_data'' (Some ''k'') PNone ''identity''
             (replicate 65536 CHR ''x'')]
   \<and> map_of (req_headers (hd (snd (send_request
         (example_env False (Inr (replicate 65536 CHR ''x'')) (Inr PNone) (Inl ''down''))
         ''u'' ''error_data'' (Some ''k'') PNone [PNum 1] [])))) ''Content-Encoding''
       \<noteq> Some ''deflate''"
  by (simp add: send_request_def encode_payload_def compress_body_def example_env_def
      build_request_def Let_def)

subsection \<open>The session operations\<close>

text \<open>
  Claim C7. With an empty iterable, \<open>send_errors\<close>, \<open>send_transaction_traces\<close> and
  \<open>send_sql_traces\<close> return \<open>None\<close> at once and make no call on the network.
  \<open>send_metric_data\<close> has no such test: with empty metric data it is the
  \<open>send_request\<close> of the payload (run id, start, end, empty list), which makes one
  call whenever that payload is serialized.
\<close>

theorem C7_empty_input_no_call:
  "send_errors e s [] posted = (Inr PNone, posted)
   \<and> send_transaction_traces e s [] posted = (Inr PNone, posted)
   \<and> send_sql_traces e s [] posted = (Inr PNone, posted)
   \<and> send_metric_data e s start_time end_time (PList []) posted =
       send_request e (s_collector_url s) ''metric_data'' (s_license_key s)
         (s_agent_run_id s) [s_agent_run_id s, start_time, end_time, PList []] posted
   \<and> (json_dumps e [s_agent_run_id s, start_time, end_time, PList []] = Inr d \<longrightarrow>
       length (snd (send_metric_data e s start_time end_time (PList []) posted)) =
         Suc (length posted))"
proof -
  have "json_dumps e [s_agent_run_id s, start_time, end_time, PList []] = Inr d \<Longrightarrow>
        length (snd (send_metric_data e s start_time end_time (PList []) posted)) =
          Suc (length posted)"
    using send_request_posts_one [of e _ d]
    by (simp add: send_metric_data_def Let_def)
  then show ?thesis
    by (simp add: send_errors_def send_transaction_traces_def send_sql_traces_def
        send_metric_data_def Let_def)
qed

theorem C7_witness:
  "json_dumps (example_env False (Inr ''[42,1,2,[]]'') (Inr PNone) (Inl ''down''))
       [s_agent_run_id example_session, PNum 1, PNum 2, PList []] = Inr ''[42,1,2,[]]''
   \<and> length (snd (send_metric_data
         (example_env False (Inr ''[42,1,2,[]]'') (Inr PNone) (Inl ''down''))
         example_session (PNum 1) (PNum 2) (PList []) [])) = 1
   \<and> send_errors (example_env False (Inr ''[42,1,2,[]]'') (Inr PNone) (Inl ''down''))
         example_session [] [] = (Inr PNone, [])"
proof -
  have h: "json_dumps (example_env False (Inr ''[42,1,2,[]]'') (Inr PNone) (Inl ''down''))
       [s_agent_run_id example_session, PNum 1, PNum 2, PList []] = Inr ''[42,1,2,[]]''"
    by (simp add: example_env_def)
  from h C7_empty_input_no_call
    [of "example_env False (Inr ''[42,1,2,[]]'') (Inr PNone) (Inl ''down'')"
        example_session "[]" "PNum 1" "PNum 2" "''[42,1,2,[]]''"]
  show ?thesis by auto
qed

text \<open>
  Claim C8. For a non-empty list of SQL traces, \<open>send_sql_traces\<close> is the
  \<open>send_request\<close> of the one-element tuple holding the list, so what goes on the wire
  is the serialization of that tuple: the run id is no element of it. The payloads of
  \<open>send_metric_data\<close>, \<open>send_errors\<close> and \<open>send_transaction_traces\<close> start with the
  run id.
\<close>

theorem C8_sql_traces_payload:
  assumes "sql_traces \<noteq> []"
  shows "send_sql_traces e s sql_traces posted =
           send_request e (s_collector_url s) ''sql_trace_data'' (s_license_key s)
             (s_agent_run_id s) [PList sql_traces] posted
         \<and> (json_dumps e [PList sql_traces] = Inr d \<longrightarrow>
              map req_data (snd (send_sql_traces e s sql_traces posted)) =
                map req_data posted @
                [if length d \<le> 64 * 1024 then d
                 else zlib_compress e d (if length d < 2000000 then 1 else 9)])
         \<and> send_metric_data e s start_time end_time metric_data posted =
             send_request e (s_collector_url s) ''metric_data'' (s_license_key s)
               (s_agent_run_id s) [s_agent_run_id s, start_time, end_time, metric_data]
               posted
         \<and> (errors \<noteq> [] \<longrightarrow>
              send_errors e s errors posted =
                send_request e (s_collector_url s) ''error_data'' (s_license_key s)
                  (s_agent_run_id s) [s_agent_run_id s, PList errors] posted)
         \<and> (transaction_traces \<noteq> [] \<longrightarrow>
              send_transaction_traces e s transaction_traces posted =
                send_request e (s_collector_url s) ''transaction_sample_data''
                  (s_license_key s) (s_agent_run_id s)
                  [s_agent_run_id s, PList transaction_traces] posted)"
proof -
  have "json_dumps e [PList sql_traces] = Inr d \<Longrightarrow>
        map req_data (snd (send_request e (s_collector_url s) ''sql_trace_data''
            (s_license_key s) (s_agent_run_id s) [PList sql_traces] posted)) =
          map req_data posted @
          [if length d \<le> 64 * 1024 then d
           else zlib_compress e d (if length d < 2000000 then 1 else 9)]"
    using send_request_posts_one [of e _ d]
    by (simp add: post_arguments_def build_request_def compress_body_def)
  with assms show ?thesis
    by (simp add: send_sql_traces_def send_errors_def send_transaction_traces_def
        send_metric_data_def Let_def)
qed

theorem C8_witness:
  "[PStr ''t1'', PStr ''t2''] \<noteq> []
   \<and> json_dumps (example_env False (Inr ''[[t1,t2]]'') (Inr PNone) (Inl ''down''))
        [PList [PStr ''t1'', PStr ''t2'']] = Inr ''[[t1,t2]]''
   \<and> send_sql_traces (example_env False (Inr ''[[t1,t2]]'') (Inr PNone) (Inl ''down''))
        example_session [PStr ''t1'', PStr ''t2''] [] =
      send_request (example_env False (Inr ''[[t1,t2]]'') (Inr PNone) (Inl ''down''))
        (s_collector_url example_session) ''sql_trace_data''
        (s_license_key example_session) (s_agent_run_id example_session)
        [PList [PStr ''t1'', PStr ''t2'']] []
   \<and> map req_data (snd (send_sql_traces
        (example_env False (Inr ''[[t1,t2]]'') (Inr PNone) (Inl ''down''))
        example_session [PStr ''t1'', PStr ''t2''] [])) = [''[[t1,t2]]'']
   \<and> send_errors (example_env False (Inr ''[[t1,t2]]'') (Inr PNone) (Inl ''down''))
        example_session [PStr ''e1''] [] =
      send_request (example_env False (Inr ''[[t1,t2]]'') (Inr PNone) (Inl ''down''))
        (s_collector_url example_session) ''error_data''
        (s_license_key example_session) (s_agent_run_id example_session)
        [s_agent_run_id example_session, PList [PStr ''e1'']] []"
proof -
  have n: "[PStr ''t1'', PStr ''t2''] \<noteq> []" by simp
  have h: "json_dumps (example_env False (Inr ''[[t1,t2]]'') (Inr PNone) (Inl ''down''))
        [PList [PStr ''t1'', PStr ''t2'']] = Inr ''[[t1,t2]]''"
    by (simp add: example_env_def)
  from h C8_sql_traces_payload
    [OF n, of "example_env False (Inr ''[[t1,t2]]'') (Inr PNone) (Inl ''down'')"
        example_session "[]" "''[[t1,t2]]''" "PNum 1" "PNum 2" "PList []"
        "[PStr ''e1'']" "[PStr ''x1'']"]
  show ?thesis by auto
qed

subsection \<open>The response of the collector\<close>

lemma send_request_200:
  assumes "json_dumps e payload = Inr d"
    and "requests_post e posted (post_arguments e u method lk rid d) = Inr r"
    and "status_code r = 200"
    and "json_loads e (content r) = Inr result"
  shows "fst (send_request e u method lk rid payload posted) = decoded_result result"
  using send_request_response [OF assms(1,2)] assms(3,4)
  by (simp add: handle_response_def)

text \<open>
  Claim C9. A 200 response whose body decodes to an object with neither the key
  \<open>return_value\<close> nor the key \<open>exception\<close> makes \<open>send_request\<close> raise
  \<open>KeyError\<close> from \<open>result['exception']\<close>: an exception outside the five outcomes,
  not \<open>DiscardDataForRequest\<close>.
\<close>

theorem C9_missing_keys_raise_KeyError:
  assumes "json_dumps e payload = Inr d"
    and "requests_post e posted (post_arguments e u method lk rid d) = Inr r"
    and "status_code r = 200"
    and "json_loads e (content r) = Inr (PDict kvs)"
    and "''return_value'' \<notin> fst ` set kvs"
    and "''exception'' \<notin> fst ` set kvs"
  shows "fst (send_request e u method lk rid payload posted) = Inl (KeyError ''exception'')
         \<and> outcome_of (fst (send_request e u method lk rid payload posted)) = None"
proof -
  from assms(6) have "map_of kvs ''exception'' = None"
    by (simp add: map_of_eq_None_iff)
  with assms(5) have "decoded_result (PDict kvs) = Inl (KeyError ''exception'')"
    by (simp add: decoded_result_def)
  with send_request_200 [OF assms(1-4)] show ?thesis by simp
qed

theorem C9_witness:
  "fst (send_request
         (example_env False (Inr ''[]'') (Inr (PDict []))
            (Inr \<lparr>status_code = 200, content = ''{}''\<rparr>))
         ''u'' ''metric_data'' (Some ''k'') (PNum 1) [] [])
     = Inl (KeyError ''exception'')"
proof -
  let ?e = "example_env False (Inr ''[]'') (Inr (PDict []))
              (Inr \<lparr>status_code = 200, content = ''{}''\<rparr>)"
  have a: "json_dumps ?e [] = Inr ''[]''" by (simp add: example_env_def)
  have b: "requests_post ?e [] (post_arguments ?e ''u'' ''metric_data'' (Some ''k'') (PNum 1) ''[]'')
         = Inr \<lparr>status_code = 200, content = ''{}''\<rparr>"
    by (simp add: example_env_def)
  have c: "status_code \<lparr>status_code = 200, content = ''{}''\<rparr> = 200"
    by simp
  have d: "json_loads ?e (content \<lparr>status_code = 200, content = ''{}''\<rparr>)
         = Inr (PDict [])"
    by (simp add: example_env_def)
  have f: "''return_value'' \<notin> fst ` set ([] :: (string \<times> pyval) list)" by simp
  have g: "''exception'' \<notin> fst ` set ([] :: (string \<times> pyval) list)" by simp
  from C9_missing_keys_raise_KeyError [OF a b c d f g] show ?thesis by simp
qed

text \<open>
  Claim C10. A license key that is missing (\<open>None\<close>) or empty does not make
  \<open>send_request\<close> fail: the call behaves as the call with the sentinel string as the
  key, and whenever the payload is serialized the one request that is posted carries
  the sentinel as its \<open>license_key\<close> parameter.
\<close>

theorem C10_missing_license_key_sentinel:
  assumes "no_key lk"
  shows "send_request e u method lk rid payload posted =
           send_request e u method
             (Some ''NO LICENSE KEY WAS SET IN AGENT CONFIGURATION'') rid payload posted
         \<and> (json_dumps e payload = Inr d \<longrightarrow>
              (\<exists>req. snd (send_request e u method lk rid payload posted) = posted @ [req]
                 \<and> map_of (req_params req) ''license_key'' =
                     Some ''NO LICENSE KEY WAS SET IN AGENT CONFIGURATION''))"
proof -
  from assms have k: "effective_license_key lk =
      ''NO LICENSE KEY WAS SET IN AGENT CONFIGURATION''"
    by (cases lk) (simp_all add: effective_license_key_def)
  have k': "effective_license_key (Some ''NO LICENSE KEY WAS SET IN AGENT CONFIGURATION'') =
      ''NO LICENSE KEY WAS SET IN AGENT CONFIGURATION''"
    by (simp add: effective_license_key_def)
  have b: "build_request e u method lk rid enc body =
        build_request e u method (Some ''NO LICENSE KEY WAS SET IN AGENT CONFIGURATION'')
          rid enc body" for enc body
    by (simp only: build_request_def request_params_def k k')
  have 1: "send_request e u method lk rid payload posted =
           send_request e u method
             (Some ''NO LICENSE KEY WAS SET IN AGENT CONFIGURATION'') rid payload posted"
    by (simp only: send_request_def b)
  have 2: "map_of (req_params (post_arguments e u method lk rid d)) ''license_key'' =
        Some ''NO LICENSE KEY WAS SET IN AGENT CONFIGURATION''"
    by (simp add: post_arguments_def build_request_def request_params_def k)
  from 1 2 send_request_posts_one [of e payload d u "method" lk rid posted]
  show ?thesis by (intro conjI impI) (simp, blast)
qed

theorem C10_witness:
  "no_key None
   \<and> map_of (req_params (hd (snd (send_request
         (example_env False (Inr ''[]'') (Inr PNone) (Inl ''down''))
         ''u'' ''get_redirect_host'' None PNone [] [])))) ''license_key''
     = Some ''NO LICENSE KEY WAS SET IN AGENT CONFIGURATION''"
proof -
  have h: "json_dumps (example_env False (Inr ''[]'') (Inr PNone) (Inl ''down'')) []
      = Inr ''[]''"
    by (simp add: example_env_def)
  have n: "no_key None" by simp
  from C10_missing_license_key_sentinel
    [OF n, of "example_env False (Inr ''[]'') (Inr PNone) (Inl ''down'')" "''u''"
       "''get_redirect_host''" PNone "[]" "[]" "''[]''"] h
  show ?thesis by auto
qed

subsection \<open>The table of responses\<close>

lemma handle_response_not_200:
  assumes "status_code r \<noteq> 200"
  shows "status_code r = 400 \<Longrightarrow> handle_response e enc r = Inl (DiscardDataForRequest [])"
    and "status_code r = 413 \<Longrightarrow> handle_response e enc r = Inl (DiscardDataForRequest [])"
    and "status_code r = 503 \<Longrightarrow> handle_response e enc r = Inl (ServerIsUnavailable [])"
    and "status_code r = 415 \<Longrightarrow> \<not> debug_log_malformed_json_data (global_settings e) \<Longrightarrow>
         handle_response e enc r = Inl (DiscardDataForRequest [PStr (content r)])"
    and "status_code r = 415 \<Longrightarrow> enc \<noteq> ''deflate'' \<Longrightarrow>
         handle_response e enc r = Inl (DiscardDataForRequest [PStr (content r)])"
    and "status_code r \<notin> {400, 413, 415, 503} \<Longrightarrow>
         handle_response e enc r = Inl (DiscardDataForRequest [])"
  using assms by (simp_all add: handle_response_def)

lemma handle_response_415_debug_deflate:
  assumes "status_code r = 415"
    and "debug_log_malformed_json_data (global_settings e)"
  shows "handle_response e ''deflate'' r = Inl (AttributeError ''uncompress'')"
  using assms by (simp add: handle_response_def)

lemma server_exception_table:
  "server_exception (PStr ''NewRelic::Agent::LicenseException'') m =
     Inl (DiscardDataForRequest [m])"
  "server_exception (PStr ''NewRelic::Agent::PostTooBigException'') m =
     Inl (DiscardDataForRequest [m])"
  "server_exception (PStr ''NewRelic::Agent::ForceRestartException'') m =
     Inl (ForceAgentRestart [m])"
  "server_exception (PStr ''NewRelic::Agent::ForceDisconnectException'') m =
     Inl (AttributeError ''alert'')"
  by (simp_all add: server_exception_def)

lemma server_exception_other:
  assumes "t \<noteq> PStr ''NewRelic::Agent::LicenseException''"
    and "t \<noteq> PStr ''NewRelic::Agent::PostTooBigException''"
    and "t \<noteq> PStr ''NewRelic::Agent::ForceRestartException''"
    and "t \<noteq> PStr ''NewRelic::Agent::ForceDisconnectException''"
  shows "server_exception t m = Inl (DiscardDataForRequest [m])"
  using assms by (simp add: server_exception_def)

lemma decoded_result_exception:
  assumes "''return_value'' \<notin> fst ` set kvs"
    and "map_of kvs ''exception'' = Some (PDict ex)"
    and "map_of ex ''error_type'' = Some t"
    and "map_of ex ''message'' = Some m"
  shows "decoded_result (PDict kvs) = server_exception t m"
  using assms by (simp add: decoded_result_def)

text \<open>
  Claim C1, at the failing input: a 200 response whose body is the exception object
  with the error type \<open>NewRelic::Agent::ForceDisconnectException\<close>. The branch calls
  \<open>_logger.alert\<close> (line 363), which \<open>logging.Logger\<close> does not have, so
  \<open>AttributeError\<close> is raised before \<open>raise ForceAgentDisconnect(message)\<close>
  (line 369) is reached: the result is no outcome at all, and not Disconnect.
\<close>

theorem C1_force_disconnect_raises_AttributeError:
  "fst (send_request
         (example_env False (Inr ''[]'')
            (Inr (PDict [(''exception'',
                    PDict [(''error_type'', PStr ''NewRelic::Agent::ForceDisconnectException''),
                           (''message'', PStr ''disabled'')])]))
            (Inr \<lparr>status_code = 200, content = ''{...}''\<rparr>))
         ''u'' ''metric_data'' (Some ''k'') (PNum 1) [] [])
     = Inl (AttributeError ''alert'')
   \<and> outcome_of (fst (send_request
         (example_env False (Inr ''[]'')
            (Inr (PDict [(''exception'',
                    PDict [(''error_type'', PStr ''NewRelic::Agent::ForceDisconnectException''),
                           (''message'', PStr ''disabled'')])]))
            (Inr \<lparr>status_code = 200, content = ''{...}''\<rparr>))
         ''u'' ''metric_data'' (Some ''k'') (PNum 1) [] []))
     \<noteq> Some Disconnect"
proof -
  let ?e = "example_env False (Inr ''[]'')
            (Inr (PDict [(''exception'',
                    PDict [(''error_type'', PStr ''NewRelic::Agent::ForceDisconnectException''),
                           (''message'', PStr ''disabled'')])]))
            (Inr \<lparr>status_code = 200, content = ''{...}''\<rparr>)"
  have "fst (send_request ?e ''u'' ''metric_data'' (Some ''k'') (PNum 1) [] []) =
        decoded_result (PDict [(''exception'',
                    PDict [(''error_type'', PStr ''NewRelic::Agent::ForceDisconnectException''),
                           (''message'', PStr ''disabled'')])])"
    by (rule send_request_200 [where d = "''[]''" and
          r = "\<lparr>status_code = 200, content = ''{...}''\<rparr>"])
       (simp_all add: example_env_def)
  also have "\<dots> = server_exception (PStr ''NewRelic::Agent::ForceDisconnectException'')
                    (PStr ''disabled'')"
    by (rule decoded_result_exception
          [where ex = "[(''error_type'', PStr ''NewRelic::Agent::ForceDisconnectException''),
                        (''message'', PStr ''disabled'')]"]) simp_all
  also have "\<dots> = Inl (AttributeError ''alert'')"
    by (rule server_exception_table)
  finally show ?thesis by simp
qed

text \<open>
  Claim C2, at the failing input: a 415 response to a request whose body was
  compressed, with the debug flag for malformed payloads set. The branch calls
  \<open>zlib.uncompress\<close> (line 264), which \<open>zlib\<close> does not have (the function is
  \<open>decompress\<close>), so \<open>AttributeError\<close> is raised before
  \<open>raise DiscardDataForRequest(r.content)\<close> (line 269) is reached.
\<close>

theorem C2_415_debug_deflate_raises_AttributeError:
  "fst (send_request
         (example_env True (Inr (replicate 65537 CHR ''x'')) (Inr PNone)
            (Inr \<lparr>status_code = 415, content = ''Unsupported Media Type''\<rparr>))
         ''u'' ''metric_data'' (Some ''k'') (PNum 1) [] [])
     = Inl (AttributeError ''uncompress'')
   \<and> outcome_of (fst (send_request
         (example_env True (Inr (replicate 65537 CHR ''x'')) (Inr PNone)
            (Inr \<lparr>status_code = 415, content = ''Unsupported Media Type''\<rparr>))
         ''u'' ''metric_data'' (Some ''k'') (PNum 1) [] []))
     \<noteq> Some Discard"
proof -
  let ?e = "example_env True (Inr (replicate 65537 CHR ''x'')) (Inr PNone)
            (Inr \<lparr>status_code = 415, content = ''Unsupported Media Type''\<rparr>)"
  let ?r = "\<lparr>status_code = 415, content = ''Unsupported Media Type''\<rparr>"
  have "fst (send_request ?e ''u'' ''metric_data'' (Some ''k'') (PNum 1) [] []) =
        handle_response ?e (fst (compress_body ?e (replicate 65537 CHR ''x''))) ?r"
    by (rule send_request_response) (simp_all add: example_env_def)
  also have "fst (compress_body ?e (replicate 65537 CHR ''x'')) = ''deflate''"
    by (simp add: compress_body_def)
  also have "handle_response ?e ''deflate'' ?r = Inl (AttributeError ''uncompress'')"
    by (rule handle_response_415_debug_deflate)
       (simp_all add: example_env_def example_settings_def)
  finally show ?thesis by simp
qed

subsection \<open>Shutdown\<close>

text \<open>
  Claim C4, as amended. \<open>shutdown_session\<close> is the \<open>send_request\<close> of the method
  \<open>shutdown\<close> with the session's run id and the empty payload, and nothing more: what
  that call returns is returned, and every exception it raises is raised to the caller.
  The request is posted whenever the empty payload is serialized.
\<close>

theorem C4_shutdown_propagates:
  "shutdown_session e s posted =
     send_request e (s_collector_url s) ''shutdown'' (s_license_key s) (s_agent_run_id s)
       [] posted
   \<and> (fst (send_request e (s_collector_url s) ''shutdown'' (s_license_key s)
              (s_agent_run_id s) [] posted) = Inl x \<longrightarrow>
        fst (shutdown_session e s posted) = Inl x)
   \<and> (json_dumps e [] = Inr d \<longrightarrow>
        snd (shutdown_session e s posted) =
          posted @ [post_arguments e (s_collector_url s) ''shutdown'' (s_license_key s)
                      (s_agent_run_id s) d])"
  using send_request_posts_one [of e "[]" d]
  by (simp add: shutdown_session_def)

theorem C4_witness:
  "fst (send_request (example_env False (Inr ''[]'') (Inr PNone) (Inl ''timed out''))
          (s_collector_url example_session) ''shutdown'' (s_license_key example_session)
          (s_agent_run_id example_session) [] []) = Inl (RetryDataForRequest [PStr ''timed out''])
   \<and> json_dumps (example_env False (Inr ''[]'') (Inr PNone) (Inl ''timed out'')) [] = Inr ''[]''
   \<and> fst (shutdown_session (example_env False (Inr ''[]'') (Inr PNone) (Inl ''timed out''))
          example_session []) = Inl (RetryDataForRequest [PStr ''timed out''])
   \<and> length (snd (shutdown_session
          (example_env False (Inr ''[]'') (Inr PNone) (Inl ''timed out''))
          example_session [])) = 1"
proof -
  let ?e = "example_env False (Inr ''[]'') (Inr PNone) (Inl ''timed out'')"
  have a: "json_dumps ?e [] = Inr ''[]''" by (simp add: example_env_def)
  have b: "fst (send_request ?e (s_collector_url example_session) ''shutdown''
          (s_license_key example_session) (s_agent_run_id example_session) [] []) =
        Inl (RetryDataForRequest [PStr ''timed out''])"
    by (rule send_request_no_response [OF a]) (simp add: example_env_def)
  from a b C4_shutdown_propagates
    [of ?e example_session "[]" "RetryDataForRequest [PStr ''timed out'']" "''[]''"]
  show ?thesis by auto
qed

text \<open>
  The claim as stated fails: when the collector answers the shutdown request with the
  status 503, \<open>shutdown_session\<close> raises \<open>ServerIsUnavailable\<close> to its caller.
\<close>

theorem C4_counterexample:
  "fst (shutdown_session
         (example_env False (Inr ''[]'') (Inr PNone)
            (Inr \<lparr>status_code = 503, content = ''Service Unavailable''\<rparr>))
         example_session [])
     = Inl (ServerIsUnavailable [])"
  by (simp add: shutdown_session_def send_request_def encode_payload_def compress_body_def
      example_env_def handle_response_def Let_def)

subsection \<open>Registration\<close>

lemma registration_result:
  "fst (registration e lk app_name linked environment settings posted) =
     (let first = send_request e (collector_url e PNone) ''get_redirect_host'' lk PNone
                    [] posted
      in case fst first of
           Inl x \<Rightarrow> Inl x
         | Inr redirect_host \<Rightarrow>
             (case socket_gethostname e of
                Inl x \<Rightarrow> Inl x
              | Inr hostname \<Rightarrow>
                  (case fst (send_request e (collector_url e redirect_host) ''connect''
                               lk PNone
                               [local_config e hostname app_name linked environment
                                  settings]
                               (snd first)) of
                     Inl x \<Rightarrow> Inl x
                   | Inr server_config \<Rightarrow>
                       (case create_settings_snapshot e server_config of
                          Inl x \<Rightarrow> Inl x
                        | Inr application_config \<Rightarrow>
                            Inr (collector_url e redirect_host, redirect_host,
                                 application_config)))))"
proof (cases "send_request e (collector_url e PNone) ''get_redirect_host'' lk PNone []
                posted")
  case (Pair r1 posted1)
  show ?thesis
  proof (cases r1)
    case (Inl x)
    with Pair show ?thesis by (simp add: registration_def)
  next
    case (Inr redirect_host)
    show ?thesis
    proof (cases "socket_gethostname e")
      case (Inl x)
      with Pair Inr show ?thesis by (simp add: registration_def)
    next
      case hn: (Inr hostname)
      show ?thesis
      proof (cases "send_request e (collector_url e redirect_host) ''connect'' lk PNone
                      [local_config e hostname app_name linked environment settings]
                      posted1")
        case second: (Pair r2 posted2)
        with Pair Inr hn show ?thesis
          by (cases r2) (simp_all add: registration_def Let_def split: sum.splits)
      qed
    qed
  qed
qed

lemma create_session_result:
  "fst (create_session e license_key0 app_name linked environment settings posted) =
     (let lk = (if no_key license_key0 then license_key (global_settings e)
                else license_key0)
      in case fst (registration e lk app_name linked environment settings posted) of
           Inl x \<Rightarrow> Inr None
         | Inr (url2, redirect_host, application_config) \<Rightarrow>
             Inr (Some (new_ApplicationSession url2 lk application_config)))"
proof -
  have "fst (case registration e lk app_name linked environment settings posted of
               (Inl x, posted') \<Rightarrow>
                 if is_NetworkInterfaceException x then (Inr None, posted')
                 else (case logger_call ''exception'' of
                         Inl y \<Rightarrow> (Inl y, posted')
                       | Inr u \<Rightarrow> (Inr None, posted'))
             | (Inr (url2, redirect_host, application_config), posted') \<Rightarrow>
                 (let session = new_ApplicationSession url2 lk application_config in
                  case logger_call ''debug'' of
                    Inl y \<Rightarrow> (Inl y, posted')
                  | Inr u \<Rightarrow> (Inr (Some session), posted'))) =
        (case fst (registration e lk app_name linked environment settings posted) of
           Inl x \<Rightarrow> Inr None
         | Inr (url2, redirect_host, application_config) \<Rightarrow>
             Inr (Some (new_ApplicationSession url2 lk application_config)))" for lk
  proof (cases "registration e lk app_name linked environment settings posted")
    case (Pair r posted')
    then show ?thesis by (cases r) (simp_all add: Let_def split: prod.splits)
  qed
  then show ?thesis
    by (simp add: create_session_def Let_def)
qed

text \<open>
  Claim C5. \<open>create_session\<close> never raises. It returns a session exactly when both
  calls (\<open>get_redirect_host\<close>, then \<open>connect\<close>) return a value and the snapshot of
  the server's configuration is made; when either call raises, whatever the exception,
  or when anything else in the body raises, it returns \<open>None\<close>.
\<close>

theorem C5_create_session_never_raises:
  "(\<exists>res. fst (create_session e license_key0 app_name linked environment settings posted)
            = Inr res)
   \<and> fst (create_session e license_key0 app_name linked environment settings posted) =
       (let lk = (if no_key license_key0 then license_key (global_settings e)
                  else license_key0);
            first = send_request e (collector_url e PNone) ''get_redirect_host'' lk PNone
                      [] posted
        in case fst first of
             Inl x \<Rightarrow> Inr None
           | Inr redirect_host \<Rightarrow>
               (case socket_gethostname e of
                  Inl x \<Rightarrow> Inr None
                | Inr hostname \<Rightarrow>
                    (case fst (send_request e (collector_url e redirect_host) ''connect''
                                 lk PNone
                                 [local_config e hostname app_name linked environment
                                    settings]
                                 (snd first)) of
                       Inl x \<Rightarrow> Inr None
                     | Inr server_config \<Rightarrow>
                         (case create_settings_snapshot e server_config of
                            Inl x \<Rightarrow> Inr None
                          | Inr application_config \<Rightarrow>
                              Inr (Some (new_ApplicationSession
                                           (collector_url e redirect_host) lk
                                           application_config))))))"
proof -
  have *: "fst (create_session e license_key0 app_name linked environment settings posted) =
       (let lk = (if no_key license_key0 then license_key (global_settings e)
                  else license_key0);
            first = send_request e (collector_url e PNone) ''get_redirect_host'' lk PNone
                      [] posted
        in case fst first of
             Inl x \<Rightarrow> Inr None
           | Inr redirect_host \<Rightarrow>
               (case socket_gethostname e of
                  Inl x \<Rightarrow> Inr None
                | Inr hostname \<Rightarrow>
                    (case fst (send_request e (collector_url e redirect_host) ''connect''
                                 lk PNone
                                 [local_config e hostname app_name linked environment
                                    settings]
                                 (snd first)) of
                       Inl x \<Rightarrow> Inr None
                     | Inr server_config \<Rightarrow>
                         (case create_settings_snapshot e server_config of
                            Inl x \<Rightarrow> Inr None
                          | Inr application_config \<Rightarrow>
                              Inr (Some (new_ApplicationSession
                                           (collector_url e redirect_host) lk
                                           application_config))))))"
    unfolding create_session_result registration_result
    by (simp add: Let_def split: sum.splits)
  then have "\<exists>res. fst (create_session e license_key0 app_name linked environment settings
      posted) = Inr res"
    by (simp add: Let_def split: sum.splits)
  with * show ?thesis by blast
qed

theorem C5_witness:
  "fst (create_session
         (example_env False (Inr ''[]'')
            (Inr (PDict [(''return_value'',
                    PDict [(''agent_run_id'', PStr ''abc123''), (''some_setting'', PNum 5)])]))
            (Inr \<lparr>status_code = 200, content = ''{...}''\<rparr>))
         (Some ''k'') ''app'' [] (PList []) (PDict []) [])
     = Inr (Some (new_ApplicationSession ''https://?/agent_listener/invoke_raw_method''
                    (Some ''k'')
                    \<lparr>cfg_agent_run_id = PStr ''abc123'',
                       cfg_values = [(''agent_run_id'', PStr ''abc123''),
                                     (''some_setting'', PNum 5)]\<rparr>))
   \<and> fst (create_session
         (example_env False (Inr ''[]'') (Inr PNone)
            (Inr \<lparr>status_code = 503, content = []\<rparr>))
         None ''app'' [] (PList []) (PDict []) [])
     = Inr None"
proof -
  let ?ok = "example_env False (Inr ''[]'')
            (Inr (PDict [(''return_value'',
                    PDict [(''agent_run_id'', PStr ''abc123''), (''some_setting'', PNum 5)])]))
            (Inr \<lparr>status_code = 200, content = ''{...}''\<rparr>)"
  let ?down = "example_env False (Inr ''[]'') (Inr PNone)
            (Inr \<lparr>status_code = 503, content = []\<rparr>)"
  let ?v = "PDict [(''agent_run_id'', PStr ''abc123''), (''some_setting'', PNum 5)]"
  have ok: "fst (send_request ?ok u m lk rid p posted) = Inr ?v" for u m lk rid p posted
    by (simp add: send_request_def encode_payload_def compress_body_def handle_response_def
        decoded_result_def example_env_def Let_def)
  have down: "fst (send_request ?down u m lk rid p posted) = Inl (ServerIsUnavailable [])"
    for u m lk rid p posted
    by (simp add: send_request_def encode_payload_def compress_body_def handle_response_def
        example_env_def Let_def)
  have env: "socket_gethostname ?ok = Inr ''localhost''"
    "create_settings_snapshot ?ok ?v =
       Inr \<lparr>cfg_agent_run_id = PStr ''abc123'',
            cfg_values = [(''agent_run_id'', PStr ''abc123''), (''some_setting'', PNum 5)]\<rparr>"
    "collector_url ?ok ?v = ''https://?/agent_listener/invoke_raw_method''"
    by (simp_all add: example_env_def collector_url_def example_settings_def scheme_of_def)
  from C5_create_session_never_raises
         [of ?ok "Some ''k''" "''app''" "[]" "PList []" "PDict []" "[]"]
       C5_create_session_never_raises
         [of ?down None "''app''" "[]" "PList []" "PDict []" "[]"]
  show ?thesis
    by (simp add: ok down env Let_def)
qed

end
